theory Spec2Isabelle
  imports Main "HOL-Library.Word"
begin

section \<open>Data of the NFT simulation operations\<close>

text \<open>
  The four operations of \<^verbatim>\<open>x/nft/simulation/operations.go\<close> are glue code: they call
  collaborators of other packages (the sampler, the account picker, the fee resolver,
  the string generator, the execution engine) and decide what to return. The
  collaborators are not part of the file; they are taken as parameters, collected in
  the record \<open>env\<close>, so that every theorem about an operation holds for any behaviour
  of theirs. The mutable objects of the Go code, the random source \<^verbatim>\<open>r\<close> and the
  application \<^verbatim>\<open>app\<close>, are passed in and returned. A run either returns or panics:
  the one panic the four functions can raise themselves is the call of a method on the
  account the keeper returned, when that account is nil.
\<close>

text \<open>\<^verbatim>\<open>sdk.AccAddress\<close> is a byte string; \<^verbatim>\<open>Empty()\<close> holds of the one of length zero.\<close>

type_synonym AccAddress = string

definition Empty :: "AccAddress \<Rightarrow> bool" where
  "Empty aa = (aa = [])"

text \<open>\<^verbatim>\<open>sdk.Coins\<close>: a list of denominations with amounts. \<^verbatim>\<open>time.Time\<close>: a point in time.\<close>

type_synonym Coins = "(string \<times> int) list"

type_synonym Time = int

text \<open>\<^verbatim>\<open>simulation.Account\<close>, with the two fields the operations read.\<close>

record Account =
  Address :: AccAddress
  PrivKey :: string

text \<open>
  The account interface returned by the account keeper, as the record of the three
  methods the operations call on it.
\<close>

record ExportedAccount =
  SpendableCoins :: "Time \<Rightarrow> Coins"
  GetAccountNumber :: "64 word"
  GetSequence :: "64 word"

text \<open>
  The four requests. Each constructor stands for the call of the constructor function
  of the same name in \<^verbatim>\<open>x/nft/internal/types\<close> and keeps its arguments in the order
  of the call.
\<close>

datatype Msg =
    NewMsgTransferNFT AccAddress AccAddress string string
  | NewMsgEditNFTMetadata AccAddress string string string
  | NewMsgMintNFT AccAddress AccAddress string string string
  | NewMsgBurnNFT AccAddress string string

text \<open>
  The transaction built by \<^verbatim>\<open>helpers.GenTx\<close>: the record of the arguments it is built
  and signed from.
\<close>

record Tx =
  msgs :: "Msg list"
  fee :: Coins
  chain_id :: string
  accnums :: "64 word list"
  seqs :: "64 word list"
  privs :: "string list"

definition GenTx ::
  "Msg list \<Rightarrow> Coins \<Rightarrow> string \<Rightarrow> 64 word list \<Rightarrow> 64 word list \<Rightarrow> string list \<Rightarrow> Tx" where
  "GenTx ms fees chainID nums sqs keys =
     \<lparr>msgs = ms, fee = fees, chain_id = chainID, accnums = nums, seqs = sqs, privs = keys\<rparr>"

text \<open>The result of an execution: the flag read by \<^verbatim>\<open>IsOK()\<close> and the log text.\<close>

record Result =
  IsOK :: bool
  Log :: string

text \<open>
  The application is a black box. Its state is the sequence of transactions that were
  delivered to it so far, oldest first: \<^verbatim>\<open>Deliver\<close> appends to it.
\<close>

record BaseApp =
  delivered :: "Tx list"

text \<open>
  Go's error values, as far as the operations create them: \<^verbatim>\<open>errors.New(text)\<close> and
  \<^verbatim>\<open>fmt.Errorf(format, address)\<close>. An error returned by a collaborator is a value of
  the same type; \<open>None\<close> is \<^verbatim>\<open>nil\<close>.
\<close>

datatype error =
    errors_New string
  | fmt_Errorf string AccAddress

text \<open>
  \<^verbatim>\<open>simulation.OperationMsg\<close>, by the two functions that build one:
  \<^verbatim>\<open>NoOpMsg(route)\<close> and \<^verbatim>\<open>NewOperationMsg(msg, ok, comment)\<close>.
\<close>

datatype OperationMsg =
    NoOpMsg string
  | NewOperationMsg Msg bool string

type_synonym FutureOperation = unit

text \<open>
  The state of \<^verbatim>\<open>*rand.Rand\<close>: the raw values the source yields next. Every function
  that draws from it returns the state it leaves behind.
\<close>

type_synonym Rand = "nat list"

text \<open>
  What an operation returns is the Go triple. A run ends with that triple or with a
  panic; with either comes the state of the random source and of the application at
  that moment.
\<close>

type_synonym OpResult = "OperationMsg \<times> FutureOperation list \<times> error option"

datatype panic = nil_dereference

type_synonym Run = "(panic + OpResult) \<times> Rand \<times> BaseApp"

type_synonym 'ctx Operation =
  "Rand \<Rightarrow> BaseApp \<Rightarrow> 'ctx \<Rightarrow> Account list \<Rightarrow> string \<Rightarrow> Run"

section \<open>The collaborators\<close>

text \<open>
  The functions and the constant the operations use from other files. \<open>'ctx\<close> is
  \<^verbatim>\<open>sdk.Context\<close>, the snapshot of the ledger that the keepers read; \<open>'k\<close> is the NFT
  keeper. \<open>DeliverTx\<close> is the answer of the execution engine to a transaction, given
  what was delivered before. Each collaborator has the arguments and results of its Go
  signature; what happens inside it, a panic of its own included, is not part of the
  file and not part of the model.
\<close>

record ('ctx, 'k) env =
  ModuleName :: string
  BlockTime :: "'ctx \<Rightarrow> Time"
  getRandomNFTFromOwner :: "'ctx \<Rightarrow> 'k \<Rightarrow> Rand \<Rightarrow> (AccAddress \<times> string \<times> string) \<times> Rand"
  RandomAcc :: "Rand \<Rightarrow> Account list \<Rightarrow> (Account \<times> int) \<times> Rand"
  FindAccount :: "Account list \<Rightarrow> AccAddress \<Rightarrow> Account \<times> bool"
  RandomFees :: "Rand \<Rightarrow> 'ctx \<Rightarrow> Coins \<Rightarrow> (Coins \<times> error option) \<times> Rand"
  RandStringOfLength :: "Rand \<Rightarrow> nat \<Rightarrow> string \<times> Rand"
  DeliverTx :: "BaseApp \<Rightarrow> Tx \<Rightarrow> Result"

text \<open>
  \<^verbatim>\<open>types.AccountKeeper\<close>, an interface: the record of the method that is called.
  \<^verbatim>\<open>GetAccount\<close> returns an interface value, which is nil when the keeper holds no
  account for the address: \<open>None\<close>.
\<close>

record 'ctx AccountKeeper =
  GetAccount :: "'ctx \<Rightarrow> AccAddress \<Rightarrow> ExportedAccount option"

text \<open>\<^verbatim>\<open>app.Deliver(tx)\<close>: the engine answers and the transaction joins the delivered ones.\<close>

definition Deliver :: "('ctx, 'k) env \<Rightarrow> BaseApp \<Rightarrow> Tx \<Rightarrow> Result \<times> BaseApp" where
  "Deliver env app tx = (DeliverTx env app tx, app\<lparr>delivered := delivered app @ [tx]\<rparr>)"

section \<open>The four operations\<close>

text \<open>
  Each definition follows its Go function statement by statement; every
  \<^verbatim>\<open>return\<close> is one result. Arguments of a call are evaluated from left to right,
  so the random strings of a request are drawn in the order they are written. The
  functions call \<^verbatim>\<open>account.SpendableCoins\<close> on what \<^verbatim>\<open>GetAccount\<close> returned without a
  check: on a nil account the run panics there, before the fee is resolved.
\<close>

definition SimulateMsgTransferNFT ::
  "('ctx, 'k) env \<Rightarrow> 'ctx AccountKeeper \<Rightarrow> 'k \<Rightarrow> 'ctx Operation" where
  "SimulateMsgTransferNFT env ak k r app ctx accs chainID =
    (let ((ownerAddr, denom, nftID), r1) = getRandomNFTFromOwner env ctx k r in
     if Empty ownerAddr then (Inr (NoOpMsg (ModuleName env), [], None), r1, app)
     else
       let ((recipientAccount, _), r2) = RandomAcc env r1 accs;
           (simAccount, found) = FindAccount env accs ownerAddr in
       if \<not> found then
         (Inr (NoOpMsg (ModuleName env), [],
           Some (fmt_Errorf ''account %s not found'' ownerAddr)), r2, app)
       else
         case GetAccount ak ctx (Address simAccount) of
           None \<Rightarrow> (Inl nil_dereference, r2, app)
         | Some account \<Rightarrow>
             let ((fees, err), r3) =
                   RandomFees env r2 ctx (SpendableCoins account (BlockTime env ctx)) in
             case err of
               Some e \<Rightarrow> (Inr (NoOpMsg (ModuleName env), [], Some e), r3, app)
             | None \<Rightarrow>
                 let msg = NewMsgTransferNFT ownerAddr (Address recipientAccount) denom nftID;
                     tx = GenTx [msg] fees chainID [GetAccountNumber account]
                            [GetSequence account] [PrivKey simAccount];
                     (res, app') = Deliver env app tx in
                 if \<not> IsOK res then
                   (Inr (NoOpMsg (ModuleName env), [], Some (errors_New (Log res))), r3, app')
                 else (Inr (NewOperationMsg msg True '''', [], None), r3, app'))"

definition SimulateMsgEditNFTMetadata ::
  "('ctx, 'k) env \<Rightarrow> 'ctx AccountKeeper \<Rightarrow> 'k \<Rightarrow> 'ctx Operation" where
  "SimulateMsgEditNFTMetadata env ak k r app ctx accs chainID =
    (let ((ownerAddr, denom, nftID), r1) = getRandomNFTFromOwner env ctx k r in
     if Empty ownerAddr then (Inr (NoOpMsg (ModuleName env), [], None), r1, app)
     else
       let (simAccount, found) = FindAccount env accs ownerAddr in
       if \<not> found then
         (Inr (NoOpMsg (ModuleName env), [],
           Some (fmt_Errorf ''account %s not found'' ownerAddr)), r1, app)
       else
         case GetAccount ak ctx (Address simAccount) of
           None \<Rightarrow> (Inl nil_dereference, r1, app)
         | Some account \<Rightarrow>
             let ((fees, err), r2) =
                   RandomFees env r1 ctx (SpendableCoins account (BlockTime env ctx)) in
             case err of
               Some e \<Rightarrow> (Inr (NoOpMsg (ModuleName env), [], Some e), r2, app)
             | None \<Rightarrow>
                 let (tokenURI, r3) = RandStringOfLength env r2 45;
                     msg = NewMsgEditNFTMetadata ownerAddr nftID denom tokenURI;
                     tx = GenTx [msg] fees chainID [GetAccountNumber account]
                            [GetSequence account] [PrivKey simAccount];
                     (res, app') = Deliver env app tx in
                 if \<not> IsOK res then
                   (Inr (NoOpMsg (ModuleName env), [], Some (errors_New (Log res))), r3, app')
                 else (Inr (NewOperationMsg msg True '''', [], None), r3, app'))"

definition SimulateMsgMintNFT ::
  "('ctx, 'k) env \<Rightarrow> 'ctx AccountKeeper \<Rightarrow> 'k \<Rightarrow> 'ctx Operation" where
  "SimulateMsgMintNFT env ak k r app ctx accs chainID =
    (let ((simAccount, _), r1) = RandomAcc env r accs;
         ((recipientAccount, _), r2) = RandomAcc env r1 accs in
     case GetAccount ak ctx (Address simAccount) of
       None \<Rightarrow> (Inl nil_dereference, r2, app)
     | Some account \<Rightarrow>
         let ((fees, err), r3) =
               RandomFees env r2 ctx (SpendableCoins account (BlockTime env ctx)) in
         case err of
           Some e \<Rightarrow> (Inr (NoOpMsg (ModuleName env), [], Some e), r3, app)
         | None \<Rightarrow>
             let (nftID, r4) = RandStringOfLength env r3 10;
                 (denom, r5) = RandStringOfLength env r4 10;
                 (tokenURI, r6) = RandStringOfLength env r5 45;
                 msg = NewMsgMintNFT (Address simAccount) (Address recipientAccount)
                         nftID denom tokenURI;
                 tx = GenTx [msg] fees chainID [GetAccountNumber account]
                        [GetSequence account] [PrivKey simAccount];
                 (res, app') = Deliver env app tx in
             if \<not> IsOK res then
               (Inr (NoOpMsg (ModuleName env), [], Some (errors_New (Log res))), r6, app')
             else (Inr (NewOperationMsg msg True '''', [], None), r6, app'))"

definition SimulateMsgBurnNFT ::
  "('ctx, 'k) env \<Rightarrow> 'ctx AccountKeeper \<Rightarrow> 'k \<Rightarrow> 'ctx Operation" where
  "SimulateMsgBurnNFT env ak k r app ctx accs chainID =
    (let ((ownerAddr, denom, nftID), r1) = getRandomNFTFromOwner env ctx k r in
     if Empty ownerAddr then (Inr (NoOpMsg (ModuleName env), [], None), r1, app)
     else
       let (simAccount, found) = FindAccount env accs ownerAddr in
       if \<not> found then
         (Inr (NoOpMsg (ModuleName env), [],
           Some (fmt_Errorf ''account %s not found'' ownerAddr)), r1, app)
       else
         case GetAccount ak ctx (Address simAccount) of
           None \<Rightarrow> (Inl nil_dereference, r1, app)
         | Some account \<Rightarrow>
             let ((fees, err), r2) =
                   RandomFees env r1 ctx (SpendableCoins account (BlockTime env ctx)) in
             case err of
               Some e \<Rightarrow> (Inr (NoOpMsg (ModuleName env), [], Some e), r2, app)
             | None \<Rightarrow>
                 let msg = NewMsgBurnNFT ownerAddr nftID denom;
                     tx = GenTx [msg] fees chainID [GetAccountNumber account]
                            [GetSequence account] [PrivKey simAccount];
                     (res, app') = Deliver env app tx in
                 if \<not> IsOK res then
                   (Inr (NoOpMsg (ModuleName env), [], Some (errors_New (Log res))), r2, app')
                 else (Inr (NewOperationMsg msg True '''', [], None), r2, app'))"

section \<open>Reading a run\<close>

text \<open>
  The transactions an invocation handed to the engine: those delivered when it
  ends that were not delivered when it started. The requests it built are the
  messages of these transactions.
\<close>

definition submitted :: "BaseApp \<Rightarrow> Run \<Rightarrow> Tx list" where
  "submitted app out = drop (length (delivered app)) (delivered (snd (snd out)))"

definition requests :: "BaseApp \<Rightarrow> Run \<Rightarrow> Msg list" where
  "requests app out = concat (map msgs (submitted app out))"

text \<open>
  Modelled from the spec: the harness-side reading of the Go triple is not under src/.
  The spec's Outcome is the tagged variant NoOp, Success(request), Failure(reason):
  NoOp is the no-operation message with a nil error, Failure is a non-nil error next
  to the no-operation message, Success is an operation message flagged ok with a nil
  error. Any other triple is no Outcome, and a run that panics has none.
\<close>

datatype Outcome = NoOp | Success Msg | Failure error

fun outcome_of :: "OpResult \<Rightarrow> Outcome option" where
  "outcome_of (NoOpMsg route, fops, None) = Some NoOp"
| "outcome_of (NoOpMsg route, fops, Some e) = Some (Failure e)"
| "outcome_of (NewOperationMsg m ok comment, fops, None) = (if ok then Some (Success m) else None)"
| "outcome_of (NewOperationMsg m ok comment, fops, Some e) = None"

fun outcome :: "panic + OpResult \<Rightarrow> Outcome option" where
  "outcome (Inl p) = None"
| "outcome (Inr res) = outcome_of res"

text \<open>
  The balance the fee is resolved from, as all four operations compute it: the
  spendable coins, at the block time of the context, of the account the keeper holds
  for the address; there is none when the keeper holds no account for it.
\<close>

definition spendable ::
  "('ctx, 'k) env \<Rightarrow> 'ctx AccountKeeper \<Rightarrow> 'ctx \<Rightarrow> AccAddress \<Rightarrow> Coins option" where
  "spendable env ak ctx addr =
     map_option (\<lambda>account. SpendableCoins account (BlockTime env ctx)) (GetAccount ak ctx addr)"

text \<open>The address a request acts for: its sender or owner, the first field.\<close>

fun actor :: "Msg \<Rightarrow> AccAddress" where
  "actor (NewMsgTransferNFT sender recipient denom nftID) = sender"
| "actor (NewMsgEditNFTMetadata owner nftID denom tokenURI) = owner"
| "actor (NewMsgMintNFT sender recipient nftID denom tokenURI) = sender"
| "actor (NewMsgBurnNFT owner nftID denom) = owner"

text \<open>
  The two accounts a run of Mint picks, by its first two statements: the sender, then
  the recipient, each by a call of \<^verbatim>\<open>RandomAcc\<close> on the list of accounts.
\<close>

definition Mint_picks :: "('ctx, 'k) env \<Rightarrow> Rand \<Rightarrow> Account list \<Rightarrow> Account \<times> Account" where
  "Mint_picks env r accs =
     (let ((simAccount, _), r1) = RandomAcc env r accs;
          ((recipientAccount, _), r2) = RandomAcc env r1 accs
      in (simAccount, recipientAccount))"


section \<open>Contracts of the collaborators\<close>

text \<open>
  Modelled from the spec: the amount arithmetic of \<^verbatim>\<open>sdk.Coins\<close> is not under src/.
  A fee does not exceed a balance when, for every denomination of the fee, the amount
  of the fee in it is at most the amount of the balance in it.
\<close>

definition AmountOf :: "Coins \<Rightarrow> string \<Rightarrow> int" where
  "AmountOf coins d = sum_list (map snd (filter (\<lambda>c. fst c = d) coins))"

definition IsAllLTE :: "Coins \<Rightarrow> Coins \<Rightarrow> bool" where
  "IsAllLTE fees coins = list_all (\<lambda>c. AmountOf fees (fst c) \<le> AmountOf coins (fst c)) fees"

text \<open>
  Modelled from the spec: \<^verbatim>\<open>simulation.RandomFees\<close> is not under src/. The spec's
  contract of the fee resolver: it computes a fee affordable from the spendable balance
  it is given, or fails; it never selects a fee exceeding that balance.
\<close>

definition RandomFees_affordable :: "('ctx, 'k) env \<Rightarrow> bool" where
  "RandomFees_affordable env =
     (\<forall>r ctx coins fees r'.
        RandomFees env r ctx coins = ((fees, None), r') \<longrightarrow> IsAllLTE fees coins)"



text \<open>
  Modelled from the spec: Go's \<^verbatim>\<open>math/rand\<close> is not under src/. A pick that is uniform
  over \<open>n\<close> accounts is a draw \<^verbatim>\<open>Intn(n)\<close>, which yields each of the values below \<open>n\<close>
  with the same probability, whatever was drawn before. So, as far as its next two
  draws over \<open>n\<close> values go, the source is in one of the \<open>n * n\<close> states that \<open>next_two\<close>
  lists, each as likely as any other; the probability of an event is the number of
  these states in which it happens, divided by \<open>n * n\<close>.
\<close>

definition next_two :: "nat \<Rightarrow> Rand \<Rightarrow> Rand set" where
  "next_two n r = (\<lambda>(x, y). x # y # r) ` ({..<n} \<times> {..<n})"

section \<open>A simulation environment\<close>

text \<open>
  Collaborators to run the operations with, over a ledger that is a plain record.
  A draw \<^verbatim>\<open>Intn(n)\<close> reduces the next raw value of the source modulo \<open>n\<close>; a source
  that has run out of listed values yields zeros. Go's \<^verbatim>\<open>Intn\<close> panics for \<open>n = 0\<close>; the
  collaborators below draw only from a range that is not empty.
\<close>

fun Intn :: "Rand \<Rightarrow> nat \<Rightarrow> nat \<times> Rand" where
  "Intn [] n = (0, [])"
| "Intn (x # xs) n = (x mod n, xs)"

record Ledger =
  now :: Time
  owned :: "(AccAddress \<times> string \<times> string) list"
  balances :: "(AccAddress \<times> Coins) list"

text \<open>
  Modelled from the spec: \<^verbatim>\<open>getRandomNFTFromOwner\<close> is not under src/. The spec's
  sampler enumerates the owners with at least one NFT, picks one of them, then picks
  one of that owner's NFTs; when the ledger holds no NFT it returns the empty sentinel.
\<close>

definition getRandomNFTFromOwner_spec ::
  "Ledger \<Rightarrow> unit \<Rightarrow> Rand \<Rightarrow> (AccAddress \<times> string \<times> string) \<times> Rand" where
  "getRandomNFTFromOwner_spec ctx k r =
     (let owners = remdups (map fst (owned ctx)) in
      if owners = [] then (([], [], []), r)
      else
        let (i, r1) = Intn r (length owners);
            mine = filter (\<lambda>n. fst n = owners ! i) (owned ctx);
            (j, r2) = Intn r1 (length mine)
        in (mine ! j, r2))"

definition zeroAccount :: Account where
  "zeroAccount = \<lparr>Address = [], PrivKey = []\<rparr>"

text \<open>
  Modelled from the spec: \<^verbatim>\<open>simulation.RandomAcc\<close> is not under src/. The spec's pick
  is one draw over the full list of known accounts. The spec does not say what is
  picked from an empty list; here it is the zero account, and no draw is made.
\<close>

definition RandomAcc_spec :: "Rand \<Rightarrow> Account list \<Rightarrow> (Account \<times> int) \<times> Rand" where
  "RandomAcc_spec r accs =
     (if accs = [] then ((zeroAccount, 0), r)
      else let (i, r1) = Intn r (length accs) in ((accs ! i, int i), r1))"

text \<open>
  Modelled from the spec: \<^verbatim>\<open>simulation.FindAccount\<close> is not under src/. It looks the
  address up among the known accounts and says whether it was found.
\<close>

definition FindAccount_spec :: "Account list \<Rightarrow> AccAddress \<Rightarrow> Account \<times> bool" where
  "FindAccount_spec accs addr =
     (case find (\<lambda>a. Address a = addr) accs of
        Some a \<Rightarrow> (a, True)
      | None \<Rightarrow> (zeroAccount, False))"

text \<open>
  Modelled from the spec: \<^verbatim>\<open>simulation.RandomFees\<close> is not under src/. A fee resolver
  as the spec describes one: it fails when the balance affords no fee, and otherwise
  draws a denomination of the balance and a positive amount within what the balance
  holds of it.
\<close>

definition RandomFees_spec :: "Rand \<Rightarrow> Ledger \<Rightarrow> Coins \<Rightarrow> (Coins \<times> error option) \<times> Rand" where
  "RandomFees_spec r ctx coins =
     (let funded = filter (\<lambda>c. 0 < AmountOf coins (fst c)) coins in
      if funded = [] then (([], Some (errors_New ''insufficient funds'')), r)
      else
        let (i, r1) = Intn r (length funded);
            d = fst (funded ! i);
            (x, r2) = Intn r1 (nat (AmountOf coins d))
        in (([(d, 1 + int x)], None), r2))"

text \<open>
  Modelled from the spec: \<^verbatim>\<open>simulation.RandStringOfLength\<close> is not under src/. One
  raw value of the source per character, taken into a fixed alphabet.
\<close>

definition letters :: string where
  "letters = ''abcdefghijklmnopqrstuvwxyzABCDEFGHIJKLMNOPQRSTUVWXYZ0123456789''"

definition RandStringOfLength_spec :: "Rand \<Rightarrow> nat \<Rightarrow> string \<times> Rand" where
  "RandStringOfLength_spec r n =
     (map (\<lambda>x. letters ! (x mod 62)) (take n (r @ replicate n 0)), drop n r)"


text \<open>An engine that accepts every transaction but one it has been given before.\<close>

definition engine :: "BaseApp \<Rightarrow> Tx \<Rightarrow> Result" where
  "engine app tx =
     (if tx \<in> set (delivered app) then \<lparr>IsOK = False, Log = ''tx already delivered''\<rparr>
      else \<lparr>IsOK = True, Log = ''''\<rparr>)"

definition sim_env :: "(Ledger, unit) env" where
  "sim_env = \<lparr>ModuleName = ''nft'', BlockTime = now,
     getRandomNFTFromOwner = getRandomNFTFromOwner_spec, RandomAcc = RandomAcc_spec,
     FindAccount = FindAccount_spec, RandomFees = RandomFees_spec,
     RandStringOfLength = RandStringOfLength_spec, DeliverTx = engine\<rparr>"

text \<open>
  An account keeper that reads the balances of the ledger: it holds an account for
  every address with a balance entry, and nothing is locked. And a keeper that holds
  no account at all.
\<close>

definition sim_ak :: "Ledger AccountKeeper" where
  "sim_ak = \<lparr>GetAccount = (\<lambda>ctx addr.
      map_option
        (\<lambda>c. \<lparr>SpendableCoins = (\<lambda>t. c), GetAccountNumber = 0, GetSequence = 0\<rparr>)
        (map_of (balances ctx) addr))\<rparr>"

definition nil_ak :: "Ledger AccountKeeper" where
  "nil_ak = \<lparr>GetAccount = (\<lambda>ctx addr. None)\<rparr>"

text \<open>
  The scenario of the spec: accounts A and B, and a ledger with the one NFT
  (collectible, 001) owned by A. In \<open>ledger1\<close> A can pay a fee and B cannot;
  \<open>ledger0\<close> is the same ledger with no NFT; in \<open>ledger2\<close> the owner is a stranger;
  in \<open>ledger3\<close> A cannot pay either.
\<close>

definition alice :: Account where
  "alice = \<lparr>Address = ''A'', PrivKey = ''key of A''\<rparr>"

definition bob :: Account where
  "bob = \<lparr>Address = ''B'', PrivKey = ''key of B''\<rparr>"

definition ledger1 :: Ledger where
  "ledger1 = \<lparr>now = 7, owned = [(''A'', ''collectible'', ''001'')],
     balances = [(''A'', [(''stake'', 100)]), (''B'', [])]\<rparr>"

definition ledger0 :: Ledger where
  "ledger0 = ledger1\<lparr>owned := []\<rparr>"

definition ledger2 :: Ledger where
  "ledger2 = ledger1\<lparr>owned := [(''C'', ''collectible'', ''001'')]\<rparr>"

definition app0 :: BaseApp where
  "app0 = \<lparr>delivered = []\<rparr>"

definition ledger3 :: Ledger where
  "ledger3 = ledger1\<lparr>balances := [(''A'', []), (''B'', [])]\<rparr>"


section \<open>Properties of a run\<close>

text \<open>
  The classification of an execution result. \<open>classified env app out\<close> says of a run
  that started with the application \<open>app\<close> and returned \<open>out\<close>: if the run delivered a
  transaction, then either the engine flagged its result ok and the run returned the
  operation message of the request in that transaction, flagged ok, with a nil error;
  or the run returned the no-operation message with the error made of the engine's log
  text.
\<close>

definition classified :: "('ctx, 'k) env \<Rightarrow> BaseApp \<Rightarrow> Run \<Rightarrow> bool" where
  "classified env app out =
     (\<forall>tx. delivered (snd (snd out)) = delivered app @ [tx] \<longrightarrow>
        (if IsOK (DeliverTx env app tx)
         then \<exists>m. msgs tx = [m] \<and> fst out = Inr (NewOperationMsg m True '''', [], None)
         else fst out =
                Inr (NoOpMsg (ModuleName env), [],
                  Some (errors_New (Log (DeliverTx env app tx))))))"



section \<open>The branches of each operation\<close>

text \<open>
  Every run of an operation takes exactly one of its \<^verbatim>\<open>return\<close> statements or
  panics on a nil account. The following rules list these branches with the values
  of the collaborators that lead there; in the last branch of each, \<open>tx\<close> is the
  transaction handed to \<^verbatim>\<open>Deliver\<close>.
\<close>

lemmas op_defs =
  SimulateMsgTransferNFT_def SimulateMsgEditNFTMetadata_def
  SimulateMsgMintNFT_def SimulateMsgBurnNFT_def

lemmas sim_defs =
  sim_env_def sim_ak_def ledger0_def ledger1_def ledger2_def ledger3_def app0_def
  alice_def bob_def getRandomNFTFromOwner_spec_def RandomAcc_spec_def FindAccount_spec_def
  RandomFees_spec_def RandStringOfLength_spec_def engine_def AmountOf_def zeroAccount_def
  letters_def nil_ak_def

lemma Transfer_cases:
  obtains
    (NoSubject) ownerAddr denom nftID r1 where
      "getRandomNFTFromOwner env ctx k r = ((ownerAddr, denom, nftID), r1)"
      "Empty ownerAddr"
      "SimulateMsgTransferNFT env ak k r app ctx accs chainID =
         (Inr (NoOpMsg (ModuleName env), [], None), r1, app)"
  | (NotFound) ownerAddr denom nftID r1 recipient j r2 simAccount where
      "getRandomNFTFromOwner env ctx k r = ((ownerAddr, denom, nftID), r1)"
      "\<not> Empty ownerAddr"
      "RandomAcc env r1 accs = ((recipient, j), r2)"
      "FindAccount env accs ownerAddr = (simAccount, False)"
      "SimulateMsgTransferNFT env ak k r app ctx accs chainID =
         (Inr (NoOpMsg (ModuleName env), [],
           Some (fmt_Errorf ''account %s not found'' ownerAddr)), r2, app)"
  | (NilAccount) ownerAddr denom nftID r1 recipient j r2 simAccount where
      "getRandomNFTFromOwner env ctx k r = ((ownerAddr, denom, nftID), r1)"
      "\<not> Empty ownerAddr"
      "RandomAcc env r1 accs = ((recipient, j), r2)"
      "FindAccount env accs ownerAddr = (simAccount, True)"
      "GetAccount ak ctx (Address simAccount) = None"
      "SimulateMsgTransferNFT env ak k r app ctx accs chainID =
         (Inl nil_dereference, r2, app)"
  | (NoFee) ownerAddr denom nftID r1 recipient j r2 simAccount account fees e r3 where
      "getRandomNFTFromOwner env ctx k r = ((ownerAddr, denom, nftID), r1)"
      "\<not> Empty ownerAddr"
      "RandomAcc env r1 accs = ((recipient, j), r2)"
      "FindAccount env accs ownerAddr = (simAccount, True)"
      "GetAccount ak ctx (Address simAccount) = Some account"
      "RandomFees env r2 ctx (SpendableCoins account (BlockTime env ctx)) =
         ((fees, Some e), r3)"
      "SimulateMsgTransferNFT env ak k r app ctx accs chainID =
         (Inr (NoOpMsg (ModuleName env), [], Some e), r3, app)"
  | (Submitted) ownerAddr denom nftID r1 recipient j r2 simAccount account fees r3 tx where
      "getRandomNFTFromOwner env ctx k r = ((ownerAddr, denom, nftID), r1)"
      "\<not> Empty ownerAddr"
      "RandomAcc env r1 accs = ((recipient, j), r2)"
      "FindAccount env accs ownerAddr = (simAccount, True)"
      "GetAccount ak ctx (Address simAccount) = Some account"
      "RandomFees env r2 ctx (SpendableCoins account (BlockTime env ctx)) =
         ((fees, None), r3)"
      "msgs tx = [NewMsgTransferNFT ownerAddr (Address recipient) denom nftID]"
      "fee tx = fees"
      "SimulateMsgTransferNFT env ak k r app ctx accs chainID =
         (if IsOK (DeliverTx env app tx)
          then Inr (NewOperationMsg (NewMsgTransferNFT ownerAddr (Address recipient) denom nftID)
                  True '''', [], None)
          else Inr (NoOpMsg (ModuleName env), [],
                 Some (errors_New (Log (DeliverTx env app tx)))),
          r3, app\<lparr>delivered := delivered app @ [tx]\<rparr>)"
proof -
  obtain ownerAddr denom nftID r1 where
    s: "getRandomNFTFromOwner env ctx k r = ((ownerAddr, denom, nftID), r1)"
    by (metis surj_pair)
  obtain recipient j r2 where a: "RandomAcc env r1 accs = ((recipient, j), r2)"
    by (metis surj_pair)
  obtain simAccount found where f: "FindAccount env accs ownerAddr = (simAccount, found)"
    by (metis surj_pair)
  show thesis
  proof (cases "Empty ownerAddr")
    case True
    with s show thesis
      by (intro NoSubject [of ownerAddr denom nftID r1])
        (simp_all add: SimulateMsgTransferNFT_def)
  next
    case nonempty: False
    show thesis
    proof (cases found)
      case False
      with s a f nonempty show thesis
        by (intro NotFound [of ownerAddr denom nftID r1 recipient j r2 simAccount])
          (simp_all add: SimulateMsgTransferNFT_def)
    next
      case True
      show thesis
      proof (cases "GetAccount ak ctx (Address simAccount)")
        case None
        with s a f nonempty True show thesis
          by (intro NilAccount [of ownerAddr denom nftID r1 recipient j r2 simAccount])
            (simp_all add: SimulateMsgTransferNFT_def)
      next
        case (Some account)
        obtain fees err r3 where
          p: "RandomFees env r2 ctx (SpendableCoins account (BlockTime env ctx)) =
                ((fees, err), r3)"
          by (metis surj_pair)
        show thesis
        proof (cases err)
          case err: (Some e)
          with s a f p nonempty True Some show thesis
            by (intro NoFee [of ownerAddr denom nftID r1 recipient j r2 simAccount account fees e r3])
              (simp_all add: SimulateMsgTransferNFT_def)
        next
          case err: None
          with s a f p nonempty True Some show thesis
            by (intro Submitted [of ownerAddr denom nftID r1 recipient j r2 simAccount account fees r3
                  "GenTx [NewMsgTransferNFT ownerAddr (Address recipient) denom nftID] fees chainID
                     [GetAccountNumber account] [GetSequence account] [PrivKey simAccount]"])
              (simp_all add: SimulateMsgTransferNFT_def Deliver_def GenTx_def Let_def)
        qed
      qed
    qed
  qed
qed

lemma EditMetadata_cases:
  obtains
    (NoSubject) ownerAddr denom nftID r1 where
      "getRandomNFTFromOwner env ctx k r = ((ownerAddr, denom, nftID), r1)"
      "Empty ownerAddr"
      "SimulateMsgEditNFTMetadata env ak k r app ctx accs chainID =
         (Inr (NoOpMsg (ModuleName env), [], None), r1, app)"
  | (NotFound) ownerAddr denom nftID r1 simAccount where
      "getRandomNFTFromOwner env ctx k r = ((ownerAddr, denom, nftID), r1)"
      "\<not> Empty ownerAddr"
      "FindAccount env accs ownerAddr = (simAccount, False)"
      "SimulateMsgEditNFTMetadata env ak k r app ctx accs chainID =
         (Inr (NoOpMsg (ModuleName env), [],
           Some (fmt_Errorf ''account %s not found'' ownerAddr)), r1, app)"
  | (NilAccount) ownerAddr denom nftID r1 simAccount where
      "getRandomNFTFromOwner env ctx k r = ((ownerAddr, denom, nftID), r1)"
      "\<not> Empty ownerAddr"
      "FindAccount env accs ownerAddr = (simAccount, True)"
      "GetAccount ak ctx (Address simAccount) = None"
      "SimulateMsgEditNFTMetadata env ak k r app ctx accs chainID =
         (Inl nil_dereference, r1, app)"
  | (NoFee) ownerAddr denom nftID r1 simAccount account fees e r2 where
      "getRandomNFTFromOwner env ctx k r = ((ownerAddr, denom, nftID), r1)"
      "\<not> Empty ownerAddr"
      "FindAccount env accs ownerAddr = (simAccount, True)"
      "GetAccount ak ctx (Address simAccount) = Some account"
      "RandomFees env r1 ctx (SpendableCoins account (BlockTime env ctx)) =
         ((fees, Some e), r2)"
      "SimulateMsgEditNFTMetadata env ak k r app ctx accs chainID =
         (Inr (NoOpMsg (ModuleName env), [], Some e), r2, app)"
  | (Submitted) ownerAddr denom nftID r1 simAccount account fees r2 tokenURI r3 tx where
      "getRandomNFTFromOwner env ctx k r = ((ownerAddr, denom, nftID), r1)"
      "\<not> Empty ownerAddr"
      "FindAccount env accs ownerAddr = (simAccount, True)"
      "GetAccount ak ctx (Address simAccount) = Some account"
      "RandomFees env r1 ctx (SpendableCoins account (BlockTime env ctx)) =
         ((fees, None), r2)"
      "RandStringOfLength env r2 45 = (tokenURI, r3)"
      "msgs tx = [NewMsgEditNFTMetadata ownerAddr nftID denom tokenURI]"
      "fee tx = fees"
      "SimulateMsgEditNFTMetadata env ak k r app ctx accs chainID =
         (if IsOK (DeliverTx env app tx)
          then Inr (NewOperationMsg (NewMsgEditNFTMetadata ownerAddr nftID denom tokenURI)
                  True '''', [], None)
          else Inr (NoOpMsg (ModuleName env), [],
                 Some (errors_New (Log (DeliverTx env app tx)))),
          r3, app\<lparr>delivered := delivered app @ [tx]\<rparr>)"
proof -
  obtain ownerAddr denom nftID r1 where
    s: "getRandomNFTFromOwner env ctx k r = ((ownerAddr, denom, nftID), r1)"
    by (metis surj_pair)
  obtain simAccount found where f: "FindAccount env accs ownerAddr = (simAccount, found)"
    by (metis surj_pair)
  show thesis
  proof (cases "Empty ownerAddr")
    case True
    with s show thesis
      by (intro NoSubject [of ownerAddr denom nftID r1])
        (simp_all add: SimulateMsgEditNFTMetadata_def)
  next
    case nonempty: False
    show thesis
    proof (cases found)
      case False
      with s f nonempty show thesis
        by (intro NotFound [of ownerAddr denom nftID r1 simAccount])
          (simp_all add: SimulateMsgEditNFTMetadata_def)
    next
      case True
      show thesis
      proof (cases "GetAccount ak ctx (Address simAccount)")
        case None
        with s f nonempty True show thesis
          by (intro NilAccount [of ownerAddr denom nftID r1 simAccount])
            (simp_all add: SimulateMsgEditNFTMetadata_def)
      next
        case (Some account)
        obtain fees err r2 where
          p: "RandomFees env r1 ctx (SpendableCoins account (BlockTime env ctx)) =
                ((fees, err), r2)"
          by (metis surj_pair)
        obtain tokenURI r3 where u: "RandStringOfLength env r2 45 = (tokenURI, r3)"
          by (metis surj_pair)
        show thesis
        proof (cases err)
          case err: (Some e)
          with s f p nonempty True Some show thesis
            by (intro NoFee [of ownerAddr denom nftID r1 simAccount account fees e r2])
              (simp_all add: SimulateMsgEditNFTMetadata_def)
        next
          case err: None
          with s f p u nonempty True Some show thesis
            by (intro Submitted [of ownerAddr denom nftID r1 simAccount account fees r2 tokenURI r3
                  "GenTx [NewMsgEditNFTMetadata ownerAddr nftID denom tokenURI] fees chainID
                     [GetAccountNumber account] [GetSequence account] [PrivKey simAccount]"])
              (simp_all add: SimulateMsgEditNFTMetadata_def Deliver_def GenTx_def Let_def)
        qed
      qed
    qed
  qed
qed

lemma Burn_cases:
  obtains
    (NoSubject) ownerAddr denom nftID r1 where
      "getRandomNFTFromOwner env ctx k r = ((ownerAddr, denom, nftID), r1)"
      "Empty ownerAddr"
      "SimulateMsgBurnNFT env ak k r app ctx accs chainID =
         (Inr (NoOpMsg (ModuleName env), [], None), r1, app)"
  | (NotFound) ownerAddr denom nftID r1 simAccount where
      "getRandomNFTFromOwner env ctx k r = ((ownerAddr, denom, nftID), r1)"
      "\<not> Empty ownerAddr"
      "FindAccount env accs ownerAddr = (simAccount, False)"
      "SimulateMsgBurnNFT env ak k r app ctx accs chainID =
         (Inr (NoOpMsg (ModuleName env), [],
           Some (fmt_Errorf ''account %s not found'' ownerAddr)), r1, app)"
  | (NilAccount) ownerAddr denom nftID r1 simAccount where
      "getRandomNFTFromOwner env ctx k r = ((ownerAddr, denom, nftID), r1)"
      "\<not> Empty ownerAddr"
      "FindAccount env accs ownerAddr = (simAccount, True)"
      "GetAccount ak ctx (Address simAccount) = None"
      "SimulateMsgBurnNFT env ak k r app ctx accs chainID =
         (Inl nil_dereference, r1, app)"
  | (NoFee) ownerAddr denom nftID r1 simAccount account fees e r2 where
      "getRandomNFTFromOwner env ctx k r = ((ownerAddr, denom, nftID), r1)"
      "\<not> Empty ownerAddr"
      "FindAccount env accs ownerAddr = (simAccount, True)"
      "GetAccount ak ctx (Address simAccount) = Some account"
      "RandomFees env r1 ctx (SpendableCoins account (BlockTime env ctx)) =
         ((fees, Some e), r2)"
      "SimulateMsgBurnNFT env ak k r app ctx accs chainID =
         (Inr (NoOpMsg (ModuleName env), [], Some e), r2, app)"
  | (Submitted) ownerAddr denom nftID r1 simAccount account fees r2 tx where
      "getRandomNFTFromOwner env ctx k r = ((ownerAddr, denom, nftID), r1)"
      "\<not> Empty ownerAddr"
      "FindAccount env accs ownerAddr = (simAccount, True)"
      "GetAccount ak ctx (Address simAccount) = Some account"
      "RandomFees env r1 ctx (SpendableCoins account (BlockTime env ctx)) =
         ((fees, None), r2)"
      "msgs tx = [NewMsgBurnNFT ownerAddr nftID denom]"
      "fee tx = fees"
      "SimulateMsgBurnNFT env ak k r app ctx accs chainID =
         (if IsOK (DeliverTx env app tx)
          then Inr (NewOperationMsg (NewMsgBurnNFT ownerAddr nftID denom)
                  True '''', [], None)
          else Inr (NoOpMsg (ModuleName env), [],
                 Some (errors_New (Log (DeliverTx env app tx)))),
          r2, app\<lparr>delivered := delivered app @ [tx]\<rparr>)"
proof -
  obtain ownerAddr denom nftID r1 where
    s: "getRandomNFTFromOwner env ctx k r = ((ownerAddr, denom, nftID), r1)"
    by (metis surj_pair)
  obtain simAccount found where f: "FindAccount env accs ownerAddr = (simAccount, found)"
    by (metis surj_pair)
  show thesis
  proof (cases "Empty ownerAddr")
    case True
    with s show thesis
      by (intro NoSubject [of ownerAddr denom nftID r1])
        (simp_all add: SimulateMsgBurnNFT_def)
  next
    case nonempty: False
    show thesis
    proof (cases found)
      case False
      with s f nonempty show thesis
        by (intro NotFound [of ownerAddr denom nftID r1 simAccount])
          (simp_all add: SimulateMsgBurnNFT_def)
    next
      case True
      show thesis
      proof (cases "GetAccount ak ctx (Address simAccount)")
        case None
        with s f nonempty True show thesis
          by (intro NilAccount [of ownerAddr denom nftID r1 simAccount])
            (simp_all add: SimulateMsgBurnNFT_def)
      next
        case (Some account)
        obtain fees err r2 where
          p: "RandomFees env r1 ctx (SpendableCoins account (BlockTime env ctx)) =
                ((fees, err), r2)"
          by (metis surj_pair)
        show thesis
        proof (cases err)
          case err: (Some e)
          with s f p nonempty True Some show thesis
            by (intro NoFee [of ownerAddr denom nftID r1 simAccount account fees e r2])
              (simp_all add: SimulateMsgBurnNFT_def)
        next
          case err: None
          with s f p nonempty True Some show thesis
            by (intro Submitted [of ownerAddr denom nftID r1 simAccount account fees r2
                  "GenTx [NewMsgBurnNFT ownerAddr nftID denom] fees chainID
                     [GetAccountNumber account] [GetSequence account] [PrivKey simAccount]"])
              (simp_all add: SimulateMsgBurnNFT_def Deliver_def GenTx_def Let_def)
        qed
      qed
    qed
  qed
qed

lemma Mint_cases:
  obtains
    (NilAccount) sender i r1 recipient j r2 where
      "RandomAcc env r accs = ((sender, i), r1)"
      "RandomAcc env r1 accs = ((recipient, j), r2)"
      "GetAccount ak ctx (Address sender) = None"
      "SimulateMsgMintNFT env ak k r app ctx accs chainID =
         (Inl nil_dereference, r2, app)"
  | (NoFee) sender i r1 recipient j r2 account fees e r3 where
      "RandomAcc env r accs = ((sender, i), r1)"
      "RandomAcc env r1 accs = ((recipient, j), r2)"
      "GetAccount ak ctx (Address sender) = Some account"
      "RandomFees env r2 ctx (SpendableCoins account (BlockTime env ctx)) =
         ((fees, Some e), r3)"
      "SimulateMsgMintNFT env ak k r app ctx accs chainID =
         (Inr (NoOpMsg (ModuleName env), [], Some e), r3, app)"
  | (Submitted) sender i r1 recipient j r2 account fees r3 nftID r4 denom r5 tokenURI r6 tx where
      "RandomAcc env r accs = ((sender, i), r1)"
      "RandomAcc env r1 accs = ((recipient, j), r2)"
      "GetAccount ak ctx (Address sender) = Some account"
      "RandomFees env r2 ctx (SpendableCoins account (BlockTime env ctx)) =
         ((fees, None), r3)"
      "RandStringOfLength env r3 10 = (nftID, r4)"
      "RandStringOfLength env r4 10 = (denom, r5)"
      "RandStringOfLength env r5 45 = (tokenURI, r6)"
      "msgs tx = [NewMsgMintNFT (Address sender) (Address recipient) nftID denom tokenURI]"
      "fee tx = fees"
      "SimulateMsgMintNFT env ak k r app ctx accs chainID =
         (if IsOK (DeliverTx env app tx)
          then Inr (NewOperationMsg
                  (NewMsgMintNFT (Address sender) (Address recipient) nftID denom tokenURI)
                  True '''', [], None)
          else Inr (NoOpMsg (ModuleName env), [],
                 Some (errors_New (Log (DeliverTx env app tx)))),
          r6, app\<lparr>delivered := delivered app @ [tx]\<rparr>)"
proof -
  obtain sender i r1 where a: "RandomAcc env r accs = ((sender, i), r1)"
    by (metis surj_pair)
  obtain recipient j r2 where b: "RandomAcc env r1 accs = ((recipient, j), r2)"
    by (metis surj_pair)
  show thesis
  proof (cases "GetAccount ak ctx (Address sender)")
    case None
    with a b show thesis
      by (intro NilAccount [of sender i r1 recipient j r2])
        (simp_all add: SimulateMsgMintNFT_def)
  next
    case (Some account)
    obtain fees err r3 where
      p: "RandomFees env r2 ctx (SpendableCoins account (BlockTime env ctx)) =
            ((fees, err), r3)"
      by (metis surj_pair)
    obtain nftID r4 where u: "RandStringOfLength env r3 10 = (nftID, r4)"
      by (metis surj_pair)
    obtain denom r5 where v: "RandStringOfLength env r4 10 = (denom, r5)"
      by (metis surj_pair)
    obtain tokenURI r6 where w: "RandStringOfLength env r5 45 = (tokenURI, r6)"
      by (metis surj_pair)
    show thesis
    proof (cases err)
      case err: (Some e)
      with a b p Some show thesis
        by (intro NoFee [of sender i r1 recipient j r2 account fees e r3])
          (simp_all add: SimulateMsgMintNFT_def)
    next
      case err: None
      with a b p u v w Some show thesis
        by (intro Submitted [of sender i r1 recipient j r2 account fees r3 nftID r4 denom r5
              tokenURI r6
              "GenTx [NewMsgMintNFT (Address sender) (Address recipient) nftID denom tokenURI]
                 fees chainID [GetAccountNumber account] [GetSequence account]
                 [PrivKey sender]"])
          (simp_all add: SimulateMsgMintNFT_def Deliver_def GenTx_def Let_def)
    qed
  qed
qed

text \<open>What a run that delivered one transaction submitted.\<close>

lemma submitted_one [simp]:
  "submitted app (res, r', app\<lparr>delivered := delivered app @ [tx]\<rparr>) = [tx]"
  by (simp add: submitted_def)

lemma submitted_none [simp]: "submitted app (res, r', app) = []"
  by (simp add: submitted_def)

lemma requests_one [simp]:
  "requests app (res, r', app\<lparr>delivered := delivered app @ [tx]\<rparr>) = msgs tx"
  by (simp add: requests_def)

lemma requests_none [simp]: "requests app (res, r', app) = []"
  by (simp add: requests_def)

section \<open>The simulation environment keeps the contracts\<close>

lemma Intn_less: "0 < n \<Longrightarrow> fst (Intn r n) < n"
  by (cases r) simp_all

lemma RandomFees_spec_affordable:
  assumes "RandomFees_spec r ctx coins = ((fees, None), r')"
  shows "IsAllLTE fees coins"
proof -
  define funded where "funded = filter (\<lambda>c. 0 < AmountOf coins (fst c)) coins"
  define i where "i = fst (Intn r (length funded))"
  define d where "d = fst (funded ! i)"
  define x where "x = fst (Intn (snd (Intn r (length funded))) (nat (AmountOf coins d)))"
  from assms have some: "funded \<noteq> []"
    by (auto simp add: RandomFees_spec_def funded_def Let_def split: if_splits)
  with assms have fees: "fees = [(d, 1 + int x)]"
    by (simp add: RandomFees_spec_def funded_def [symmetric] Let_def case_prod_beta
        i_def d_def x_def)
  from some have "i < length funded"
    unfolding i_def by (intro Intn_less) simp
  then have "funded ! i \<in> set funded"
    by simp
  then have pos: "0 < AmountOf coins d"
    by (simp add: funded_def d_def)
  then have "x < nat (AmountOf coins d)"
    unfolding x_def by (intro Intn_less) simp
  with pos have "1 + int x \<le> AmountOf coins d"
    by linarith
  with fees show ?thesis
    by (simp add: IsAllLTE_def AmountOf_def)
qed

lemma sim_env_affordable: "RandomFees_affordable sim_env"
  unfolding RandomFees_affordable_def
  by (auto simp add: sim_env_def intro: RandomFees_spec_affordable)




text \<open>
  Runs of the scenario in full: a mint from A to B, a mint from A to A and an edit of
  the metadata of A's NFT, where the random source has run out when the strings are
  drawn, so that they are made of the first letter; and a mint from A to B with a
  source that lasts, whose strings are drawn from it.
\<close>

lemma sim_mint_run:
  "SimulateMsgMintNFT sim_env sim_ak () [0, 1] app0 ledger1 [alice, bob] ''sim'' =
     (Inr (NewOperationMsg
         (NewMsgMintNFT ''A'' ''B'' (replicate 10 CHR ''a'') (replicate 10 CHR ''a'')
            (replicate 45 CHR ''a'')) True '''', [], None), [],
      app0\<lparr>delivered := delivered app0 @ [GenTx
         [NewMsgMintNFT ''A'' ''B'' (replicate 10 CHR ''a'') (replicate 10 CHR ''a'')
            (replicate 45 CHR ''a'')] [(''stake'', 1)] ''sim'' [0] [0] [''key of A'']]\<rparr>)"
  by (simp add: SimulateMsgMintNFT_def sim_defs Deliver_def GenTx_def Let_def)


lemma sim_mint_same_run:
  "SimulateMsgMintNFT sim_env sim_ak () [0, 0] app0 ledger1 [alice, bob] ''sim'' =
     (Inr (NewOperationMsg
         (NewMsgMintNFT ''A'' ''A'' (replicate 10 CHR ''a'') (replicate 10 CHR ''a'')
            (replicate 45 CHR ''a'')) True '''', [], None), [],
      app0\<lparr>delivered := delivered app0 @ [GenTx
         [NewMsgMintNFT ''A'' ''A'' (replicate 10 CHR ''a'') (replicate 10 CHR ''a'')
            (replicate 45 CHR ''a'')] [(''stake'', 1)] ''sim'' [0] [0] [''key of A'']]\<rparr>)"
  by (simp add: SimulateMsgMintNFT_def sim_defs Deliver_def GenTx_def Let_def)


section \<open>Counting the picks of Mint\<close>

lemma next_two_iff: "s \<in> next_two n r \<longleftrightarrow> (\<exists>x<n. \<exists>y<n. s = x # y # r)"
  by (auto simp add: next_two_def)

lemma card_next_two: "card (next_two n r) = n * n"
proof -
  have "inj_on (\<lambda>(x, y). x # y # r) ({..<n} \<times> {..<n})"
    by (auto simp add: inj_on_def)
  then show ?thesis
    by (simp add: next_two_def card_image)
qed

lemma Mint_picks_spec:
  assumes "x < length accs" and "y < length accs"
  shows "Mint_picks (env\<lparr>RandomAcc := RandomAcc_spec\<rparr>) (x # y # r) accs = (accs ! x, accs ! y)"
proof -
  from assms have "accs \<noteq> []"
    by auto
  with assms show ?thesis
    by (simp add: Mint_picks_def RandomAcc_spec_def)
qed

lemma picks_pair_set:
  assumes "distinct accs" and "i < length accs" and "j < length accs"
  shows "{s \<in> next_two (length accs) r.
           Mint_picks (env\<lparr>RandomAcc := RandomAcc_spec\<rparr>) s accs = (accs ! i, accs ! j)} =
         {i # j # r}"
  using assms by (auto simp add: next_two_iff Mint_picks_spec nth_eq_iff_index_eq)

lemma picks_sender_set:
  assumes "distinct accs" and "i < length accs"
  shows "{s \<in> next_two (length accs) r.
           fst (Mint_picks (env\<lparr>RandomAcc := RandomAcc_spec\<rparr>) s accs) = accs ! i} =
         (\<lambda>y. i # y # r) ` {..<length accs}"
  using assms by (auto simp add: next_two_iff Mint_picks_spec nth_eq_iff_index_eq)

lemma picks_recipient_set:
  assumes "distinct accs" and "j < length accs"
  shows "{s \<in> next_two (length accs) r.
           snd (Mint_picks (env\<lparr>RandomAcc := RandomAcc_spec\<rparr>) s accs) = accs ! j} =
         (\<lambda>x. x # j # r) ` {..<length accs}"
  using assms by (auto simp add: next_two_iff Mint_picks_spec nth_eq_iff_index_eq)

lemma card_sender_image: "card ((\<lambda>y. i # y # r) ` {..<n}) = n"
  by (simp add: card_image inj_on_def)

lemma card_recipient_image: "card ((\<lambda>x. x # j # r) ` {..<n}) = n"
  by (simp add: card_image inj_on_def)

section \<open>The operations, claim by claim\<close>

text \<open>
  C1. When the sampler returns the empty address (no NFT has an owner), Transfer,
  EditMetadata and Burn each return the no-operation message with a nil error. No
  request is part of what they return, the random source is left as the sampler left
  it, and the application is returned as it was: nothing was delivered to it.
\<close>

theorem no_owner_is_noop:
  assumes "getRandomNFTFromOwner env ctx k r = ((ownerAddr, denom, nftID), r1)"
    and "Empty ownerAddr"
  shows "SimulateMsgTransferNFT env ak k r app ctx accs chainID =
           (Inr (NoOpMsg (ModuleName env), [], None), r1, app)
       \<and> SimulateMsgEditNFTMetadata env ak k r app ctx accs chainID =
           (Inr (NoOpMsg (ModuleName env), [], None), r1, app)
       \<and> SimulateMsgBurnNFT env ak k r app ctx accs chainID =
           (Inr (NoOpMsg (ModuleName env), [], None), r1, app)"
  using assms by (simp add: op_defs)

theorem no_owner_is_noop_witness:
  "SimulateMsgTransferNFT sim_env sim_ak () [3, 1] app0 ledger0 [alice, bob] ''sim'' =
     (Inr (NoOpMsg ''nft'', [], None), [3, 1], app0)
   \<and> SimulateMsgEditNFTMetadata sim_env sim_ak () [3, 1] app0 ledger0 [alice, bob] ''sim'' =
     (Inr (NoOpMsg ''nft'', [], None), [3, 1], app0)
   \<and> SimulateMsgBurnNFT sim_env sim_ak () [3, 1] app0 ledger0 [alice, bob] ''sim'' =
     (Inr (NoOpMsg ''nft'', [], None), [3, 1], app0)"
proof -
  have sample: "getRandomNFTFromOwner sim_env ledger0 () [3, 1] = (([], [], []), [3, 1])"
    by (simp add: sim_env_def getRandomNFTFromOwner_spec_def ledger0_def ledger1_def)
  have sentinel: "Empty []"
    by (simp add: Empty_def)
  show ?thesis
    using no_owner_is_noop [OF sample sentinel, where ak = sim_ak and app = app0
        and accs = "[alice, bob]" and chainID = "''sim''"]
    by (simp add: sim_env_def)
qed

text \<open>
  C2. In every run of any of the four operations that reaches submission, the result
  of the execution is classified: a result flagged ok gives the operation message that
  carries the submitted request, flagged ok, with a nil error; any other result gives
  the error that is exactly the log text of the engine.
\<close>

theorem execution_result_classified:
  "classified env app (SimulateMsgTransferNFT env ak k r app ctx accs chainID)
   \<and> classified env app (SimulateMsgEditNFTMetadata env ak k r app ctx accs chainID)
   \<and> classified env app (SimulateMsgMintNFT env ak k r app ctx accs chainID)
   \<and> classified env app (SimulateMsgBurnNFT env ak k r app ctx accs chainID)"
proof (intro conjI)
  show "classified env app (SimulateMsgTransferNFT env ak k r app ctx accs chainID)"
    by (rule Transfer_cases [where env = env and ak = ak and k = k and r = r
          and app = app and ctx = ctx and accs = accs and chainID = chainID])
      (simp_all add: classified_def)
  show "classified env app (SimulateMsgEditNFTMetadata env ak k r app ctx accs chainID)"
    by (rule EditMetadata_cases [where env = env and ak = ak and k = k and r = r
          and app = app and ctx = ctx and accs = accs and chainID = chainID])
      (simp_all add: classified_def)
  show "classified env app (SimulateMsgMintNFT env ak k r app ctx accs chainID)"
    by (rule Mint_cases [where env = env and ak = ak and k = k and r = r
          and app = app and ctx = ctx and accs = accs and chainID = chainID])
      (simp_all add: classified_def)
  show "classified env app (SimulateMsgBurnNFT env ak k r app ctx accs chainID)"
    by (rule Burn_cases [where env = env and ak = ak and k = k and r = r
          and app = app and ctx = ctx and accs = accs and chainID = chainID])
      (simp_all add: classified_def)
qed

text \<open>
  The transfer of the spec's scenario, once on a fresh application, where the engine
  accepts it, and once on an application that has seen the same transaction, where
  the engine rejects it.
\<close>

theorem execution_result_classified_witness:
  "fst (SimulateMsgTransferNFT sim_env sim_ak () [0, 0, 1] app0 ledger1 [alice, bob] ''sim'') =
     Inr (NewOperationMsg (NewMsgTransferNFT ''A'' ''B'' ''collectible'' ''001'') True '''',
       [], None)
   \<and> fst (SimulateMsgTransferNFT sim_env sim_ak () [0, 0, 1]
        \<lparr>delivered = [GenTx [NewMsgTransferNFT ''A'' ''B'' ''collectible'' ''001'']
                        [(''stake'', 1)] ''sim'' [0] [0] [''key of A'']]\<rparr>
        ledger1 [alice, bob] ''sim'') =
     Inr (NoOpMsg ''nft'', [], Some (errors_New ''tx already delivered''))"
proof -
  let ?tx = "GenTx [NewMsgTransferNFT ''A'' ''B'' ''collectible'' ''001'']
               [(''stake'', 1)] ''sim'' [0] [0] [''key of A'']"
  let ?app = "\<lparr>delivered = [?tx]\<rparr>"
  let ?out0 = "SimulateMsgTransferNFT sim_env sim_ak () [0, 0, 1] app0 ledger1 [alice, bob] ''sim''"
  let ?out1 = "SimulateMsgTransferNFT sim_env sim_ak () [0, 0, 1] ?app ledger1 [alice, bob] ''sim''"
  have run0: "delivered (snd (snd ?out0)) = delivered app0 @ [?tx]"
    by (simp add: SimulateMsgTransferNFT_def sim_defs Deliver_def GenTx_def Empty_def Let_def)
  have run1: "delivered (snd (snd ?out1)) = delivered ?app @ [?tx]"
    by (simp add: SimulateMsgTransferNFT_def sim_defs Deliver_def GenTx_def Empty_def Let_def)
  have ok0: "IsOK (DeliverTx sim_env app0 ?tx)"
    by (simp add: sim_env_def engine_def app0_def)
  have ko1: "\<not> IsOK (DeliverTx sim_env ?app ?tx)"
    and log1: "Log (DeliverTx sim_env ?app ?tx) = ''tx already delivered''"
    by (simp_all add: sim_env_def engine_def)
  have c0: "classified sim_env app0 ?out0" and c1: "classified sim_env ?app ?out1"
    using execution_result_classified [where env = sim_env and app = app0 and ak = sim_ak
        and k = "()" and r = "[0, 0, 1]" and ctx = ledger1 and accs = "[alice, bob]"
        and chainID = "''sim''"]
      execution_result_classified [where env = sim_env and app = ?app and ak = sim_ak
        and k = "()" and r = "[0, 0, 1]" and ctx = ledger1 and accs = "[alice, bob]"
        and chainID = "''sim''"]
    by simp_all
  from c0 run0 ok0 have "\<exists>m. msgs ?tx = [m] \<and> fst ?out0 = Inr (NewOperationMsg m True '''', [], None)"
    unfolding classified_def by metis
  then have first: "fst ?out0 =
      Inr (NewOperationMsg (NewMsgTransferNFT ''A'' ''B'' ''collectible'' ''001'') True '''',
       [], None)"
    by (simp add: GenTx_def)
  from c1 run1 ko1 have "fst ?out1 =
      Inr (NoOpMsg (ModuleName sim_env), [],
        Some (errors_New (Log (DeliverTx sim_env ?app ?tx))))"
    unfolding classified_def by metis
  with log1 have second: "fst ?out1 =
      Inr (NoOpMsg ''nft'', [], Some (errors_New ''tx already delivered''))"
    by (simp add: sim_env_def)
  from first second show ?thesis by simp
qed

text \<open>
  C3. When fee resolution fails in a run, with an error \<open>e\<close>, the operation returns the
  no-operation message with the error \<open>e\<close>; the random source is as the fee resolver
  left it and the application is returned as it was, so no transaction was submitted.
  The run is described by what the collaborators returned on the way to the fee
  resolver: for Mint the two account picks; for the other three the sampled NFT with a
  non-empty owner that was found among the accounts (and, for Transfer, the pick of
  the recipient in between); and for all four the balance \<open>coins\<close> of the account that
  the keeper holds for the acting address, which the fee is resolved from.
\<close>

theorem fee_failure_is_failure:
  "(\<forall>sender i r1 recipient j r2 coins fees e r3.
      RandomAcc env r accs = ((sender, i), r1) \<longrightarrow>
      RandomAcc env r1 accs = ((recipient, j), r2) \<longrightarrow>
      spendable env ak ctx (Address sender) = Some coins \<longrightarrow>
      RandomFees env r2 ctx coins = ((fees, Some e), r3) \<longrightarrow>
      SimulateMsgMintNFT env ak k r app ctx accs chainID =
        (Inr (NoOpMsg (ModuleName env), [], Some e), r3, app))
   \<and> (\<forall>ownerAddr denom nftID r1 simAccount coins.
      getRandomNFTFromOwner env ctx k r = ((ownerAddr, denom, nftID), r1) \<longrightarrow>
      \<not> Empty ownerAddr \<longrightarrow>
      FindAccount env accs ownerAddr = (simAccount, True) \<longrightarrow>
      spendable env ak ctx (Address simAccount) = Some coins \<longrightarrow>
      (\<forall>fees e r3.
         RandomFees env (snd (RandomAcc env r1 accs)) ctx coins = ((fees, Some e), r3) \<longrightarrow>
         SimulateMsgTransferNFT env ak k r app ctx accs chainID =
           (Inr (NoOpMsg (ModuleName env), [], Some e), r3, app))
      \<and> (\<forall>fees e r2.
         RandomFees env r1 ctx coins = ((fees, Some e), r2) \<longrightarrow>
         SimulateMsgEditNFTMetadata env ak k r app ctx accs chainID =
           (Inr (NoOpMsg (ModuleName env), [], Some e), r2, app)
         \<and> SimulateMsgBurnNFT env ak k r app ctx accs chainID =
           (Inr (NoOpMsg (ModuleName env), [], Some e), r2, app)))"
proof (intro conjI allI impI)
  fix sender i r1 recipient j r2 coins fees e r3
  assume "RandomAcc env r accs = ((sender, i), r1)"
    and "RandomAcc env r1 accs = ((recipient, j), r2)"
    and "spendable env ak ctx (Address sender) = Some coins"
    and "RandomFees env r2 ctx coins = ((fees, Some e), r3)"
  then show "SimulateMsgMintNFT env ak k r app ctx accs chainID =
      (Inr (NoOpMsg (ModuleName env), [], Some e), r3, app)"
    by (auto simp add: SimulateMsgMintNFT_def spendable_def)
next
  fix ownerAddr denom nftID r1 simAccount coins fees e r3
  assume "getRandomNFTFromOwner env ctx k r = ((ownerAddr, denom, nftID), r1)"
    and "\<not> Empty ownerAddr"
    and "FindAccount env accs ownerAddr = (simAccount, True)"
    and "spendable env ak ctx (Address simAccount) = Some coins"
    and "RandomFees env (snd (RandomAcc env r1 accs)) ctx coins = ((fees, Some e), r3)"
  then show "SimulateMsgTransferNFT env ak k r app ctx accs chainID =
      (Inr (NoOpMsg (ModuleName env), [], Some e), r3, app)"
    by (auto simp add: SimulateMsgTransferNFT_def spendable_def case_prod_beta)
next
  fix ownerAddr denom nftID r1 simAccount coins fees e r2
  assume run: "getRandomNFTFromOwner env ctx k r = ((ownerAddr, denom, nftID), r1)"
    "\<not> Empty ownerAddr"
    "FindAccount env accs ownerAddr = (simAccount, True)"
    "spendable env ak ctx (Address simAccount) = Some coins"
    "RandomFees env r1 ctx coins = ((fees, Some e), r2)"
  from run show "SimulateMsgEditNFTMetadata env ak k r app ctx accs chainID =
      (Inr (NoOpMsg (ModuleName env), [], Some e), r2, app)"
    by (auto simp add: SimulateMsgEditNFTMetadata_def spendable_def)
  from run show "SimulateMsgBurnNFT env ak k r app ctx accs chainID =
      (Inr (NoOpMsg (ModuleName env), [], Some e), r2, app)"
    by (auto simp add: SimulateMsgBurnNFT_def spendable_def)
qed

text \<open>
  Mint with the sender B, who has nothing to spend, and the three other operations on
  a ledger where the owner A has nothing to spend.
\<close>

theorem fee_failure_is_failure_witness:
  "SimulateMsgMintNFT sim_env sim_ak () [1, 0, 5] app0 ledger1 [alice, bob] ''sim'' =
     (Inr (NoOpMsg ''nft'', [], Some (errors_New ''insufficient funds'')), [5], app0)
   \<and> SimulateMsgTransferNFT sim_env sim_ak () [0, 0, 1, 5] app0 ledger3 [alice, bob] ''sim'' =
     (Inr (NoOpMsg ''nft'', [], Some (errors_New ''insufficient funds'')), [5], app0)
   \<and> SimulateMsgEditNFTMetadata sim_env sim_ak () [0, 0, 5] app0 ledger3 [alice, bob] ''sim'' =
     (Inr (NoOpMsg ''nft'', [], Some (errors_New ''insufficient funds'')), [5], app0)
   \<and> SimulateMsgBurnNFT sim_env sim_ak () [0, 0, 5] app0 ledger3 [alice, bob] ''sim'' =
     (Inr (NoOpMsg ''nft'', [], Some (errors_New ''insufficient funds'')), [5], app0)"
proof -
  let ?e = "errors_New ''insufficient funds''"
  have pick1: "RandomAcc sim_env [1, 0, 5] [alice, bob] = ((bob, 1), [0, 5])"
    and pick2: "RandomAcc sim_env [0, 5] [alice, bob] = ((alice, 0), [5])"
    by (simp_all add: sim_env_def RandomAcc_spec_def)
  have held1: "spendable sim_env sim_ak ledger1 (Address bob) = Some []"
    by (simp add: sim_defs spendable_def)
  have poor: "RandomFees sim_env [5] ctx [] = (([], Some ?e), [5])" for ctx
    by (simp add: sim_defs)
  have sample4: "getRandomNFTFromOwner sim_env ledger3 () [0, 0, 1, 5] =
      ((''A'', ''collectible'', ''001''), [1, 5])"
    and sample3: "getRandomNFTFromOwner sim_env ledger3 () [0, 0, 5] =
      ((''A'', ''collectible'', ''001''), [5])"
    by (simp_all add: sim_defs)
  have owner: "\<not> Empty ''A''"
    by (simp add: Empty_def)
  have found: "FindAccount sim_env [alice, bob] ''A'' = (alice, True)"
    by (simp add: sim_defs)
  have pick3: "snd (RandomAcc sim_env [1, 5] [alice, bob]) = [5]"
    by (simp add: sim_env_def RandomAcc_spec_def)
  have held3: "spendable sim_env sim_ak ledger3 (Address alice) = Some []"
    by (simp add: sim_defs spendable_def)
  from fee_failure_is_failure [where env = sim_env and r = "[1, 0, 5]" and accs = "[alice, bob]"
      and ctx = ledger1 and ak = sim_ak and k = "()" and app = app0 and chainID = "''sim''"]
    pick1 pick2 held1 poor [of ledger1]
  have mint: "SimulateMsgMintNFT sim_env sim_ak () [1, 0, 5] app0 ledger1 [alice, bob] ''sim'' =
      (Inr (NoOpMsg (ModuleName sim_env), [], Some ?e), [5], app0)"
    by blast
  from fee_failure_is_failure [where env = sim_env and r = "[0, 0, 1, 5]" and accs = "[alice, bob]"
      and ctx = ledger3 and ak = sim_ak and k = "()" and app = app0 and chainID = "''sim''"]
    sample4 owner found held3 pick3 poor [of ledger3]
  have transfer:
    "SimulateMsgTransferNFT sim_env sim_ak () [0, 0, 1, 5] app0 ledger3 [alice, bob] ''sim'' =
      (Inr (NoOpMsg (ModuleName sim_env), [], Some ?e), [5], app0)"
    by simp
  from fee_failure_is_failure [where env = sim_env and r = "[0, 0, 5]" and accs = "[alice, bob]"
      and ctx = ledger3 and ak = sim_ak and k = "()" and app = app0 and chainID = "''sim''"]
    sample3 owner found held3 poor [of ledger3]
  have edit_burn:
    "SimulateMsgEditNFTMetadata sim_env sim_ak () [0, 0, 5] app0 ledger3 [alice, bob] ''sim'' =
      (Inr (NoOpMsg (ModuleName sim_env), [], Some ?e), [5], app0)
     \<and> SimulateMsgBurnNFT sim_env sim_ak () [0, 0, 5] app0 ledger3 [alice, bob] ''sim'' =
      (Inr (NoOpMsg (ModuleName sim_env), [], Some ?e), [5], app0)"
    by simp
  from mint transfer edit_burn show ?thesis
    by (simp add: sim_env_def)
qed



text \<open>
  C5. Given that the fee resolver keeps its contract (a fee it returns does not exceed
  the balance it was given), the fee of every transaction an operation submits does
  not exceed the spendable balance, at the block time of the context, of the acting
  account: for Mint the account the keeper holds for the sender of the request, for
  the three others the account it holds for the address of the account that
  \<^verbatim>\<open>FindAccount\<close> returned for the owner of the request. The operations pass that
  balance to the resolver and attach the fee it returns unchanged.
\<close>

theorem fee_within_spendable:
  assumes "RandomFees_affordable env"
  shows "(\<forall>tx \<in> set (submitted app (SimulateMsgMintNFT env ak k r app ctx accs chainID)).
            \<exists>m coins. msgs tx = [m] \<and> spendable env ak ctx (actor m) = Some coins \<and>
              IsAllLTE (fee tx) coins)
       \<and> (\<forall>tx \<in> set (submitted app (SimulateMsgTransferNFT env ak k r app ctx accs chainID)).
            \<exists>m coins. msgs tx = [m] \<and>
              spendable env ak ctx (Address (fst (FindAccount env accs (actor m)))) =
                Some coins \<and>
              IsAllLTE (fee tx) coins)
       \<and> (\<forall>tx \<in> set (submitted app (SimulateMsgEditNFTMetadata env ak k r app ctx accs chainID)).
            \<exists>m coins. msgs tx = [m] \<and>
              spendable env ak ctx (Address (fst (FindAccount env accs (actor m)))) =
                Some coins \<and>
              IsAllLTE (fee tx) coins)
       \<and> (\<forall>tx \<in> set (submitted app (SimulateMsgBurnNFT env ak k r app ctx accs chainID)).
            \<exists>m coins. msgs tx = [m] \<and>
              spendable env ak ctx (Address (fst (FindAccount env accs (actor m)))) =
                Some coins \<and>
              IsAllLTE (fee tx) coins)"
proof -
  have afford: "IsAllLTE fees coins" if "RandomFees env r0 ctx coins = ((fees, None), r')"
    for r0 coins fees r'
    using assms that unfolding RandomFees_affordable_def by blast
  show ?thesis
  proof (intro conjI)
    show "\<forall>tx \<in> set (submitted app (SimulateMsgMintNFT env ak k r app ctx accs chainID)).
            \<exists>m coins. msgs tx = [m] \<and> spendable env ak ctx (actor m) = Some coins \<and>
              IsAllLTE (fee tx) coins"
      by (rule Mint_cases [where env = env and ak = ak and k = k and r = r
          and app = app and ctx = ctx and accs = accs and chainID = chainID])
        (simp_all add: afford spendable_def)
    show "\<forall>tx \<in> set (submitted app (SimulateMsgTransferNFT env ak k r app ctx accs chainID)).
            \<exists>m coins. msgs tx = [m] \<and>
              spendable env ak ctx (Address (fst (FindAccount env accs (actor m)))) =
                Some coins \<and>
              IsAllLTE (fee tx) coins"
      by (rule Transfer_cases [where env = env and ak = ak and k = k and r = r
          and app = app and ctx = ctx and accs = accs and chainID = chainID])
        (simp_all add: afford spendable_def)
    show "\<forall>tx \<in> set (submitted app (SimulateMsgEditNFTMetadata env ak k r app ctx accs chainID)).
            \<exists>m coins. msgs tx = [m] \<and>
              spendable env ak ctx (Address (fst (FindAccount env accs (actor m)))) =
                Some coins \<and>
              IsAllLTE (fee tx) coins"
      by (rule EditMetadata_cases [where env = env and ak = ak and k = k and r = r
          and app = app and ctx = ctx and accs = accs and chainID = chainID])
        (simp_all add: afford spendable_def)
    show "\<forall>tx \<in> set (submitted app (SimulateMsgBurnNFT env ak k r app ctx accs chainID)).
            \<exists>m coins. msgs tx = [m] \<and>
              spendable env ak ctx (Address (fst (FindAccount env accs (actor m)))) =
                Some coins \<and>
              IsAllLTE (fee tx) coins"
      by (rule Burn_cases [where env = env and ak = ak and k = k and r = r
          and app = app and ctx = ctx and accs = accs and chainID = chainID])
        (simp_all add: afford spendable_def)
  qed
qed

text \<open>The mint from A to B pays a fee of 1 stake; A can spend 100 stake.\<close>

theorem fee_within_spendable_witness:
  "\<exists>tx. submitted app0
          (SimulateMsgMintNFT sim_env sim_ak () [0, 1] app0 ledger1 [alice, bob] ''sim'') = [tx]
     \<and> fee tx = [(''stake'', 1)]
     \<and> IsAllLTE (fee tx) [(''stake'', 100)]"
proof -
  let ?out = "SimulateMsgMintNFT sim_env sim_ak () [0, 1] app0 ledger1 [alice, bob] ''sim''"
  obtain tx where tx: "submitted app0 ?out = [tx]" and paid: "fee tx = [(''stake'', 1)]"
    and sender: "msgs tx = [NewMsgMintNFT ''A'' ''B'' (replicate 10 CHR ''a'')
      (replicate 10 CHR ''a'') (replicate 45 CHR ''a'')]"
    unfolding sim_mint_run by (simp add: GenTx_def)
  have balance: "spendable sim_env sim_ak ledger1 ''A'' = Some [(''stake'', 100)]"
    by (simp add: spendable_def sim_ak_def ledger1_def)
  from fee_within_spendable [OF sim_env_affordable, where app = app0 and ak = sim_ak
      and k = "()" and r = "[0, 1]" and ctx = ledger1 and accs = "[alice, bob]"
      and chainID = "''sim''"] tx
  have "\<exists>m coins. msgs tx = [m] \<and> spendable sim_env sim_ak ledger1 (actor m) = Some coins \<and>
      IsAllLTE (fee tx) coins"
    by simp
  with sender balance have "IsAllLTE (fee tx) [(''stake'', 100)]"
    by auto
  with tx paid show ?thesis
    by blast
qed

text \<open>
  C6. When the sampled owner is not empty and \<^verbatim>\<open>FindAccount\<close> does not find it among
  the accounts, Transfer, EditMetadata and Burn each return the no-operation message
  with the error ``account ... not found'' for that address. The application is
  returned as it was: no transaction was submitted. Transfer has drawn the recipient
  by then, the other two have drawn nothing after the sample.
\<close>

theorem unknown_owner_is_error:
  assumes "getRandomNFTFromOwner env ctx k r = ((ownerAddr, denom, nftID), r1)"
    and "\<not> Empty ownerAddr"
    and "FindAccount env accs ownerAddr = (simAccount, False)"
  shows "SimulateMsgTransferNFT env ak k r app ctx accs chainID =
           (Inr (NoOpMsg (ModuleName env), [],
             Some (fmt_Errorf ''account %s not found'' ownerAddr)),
            snd (RandomAcc env r1 accs), app)
       \<and> SimulateMsgEditNFTMetadata env ak k r app ctx accs chainID =
           (Inr (NoOpMsg (ModuleName env), [],
             Some (fmt_Errorf ''account %s not found'' ownerAddr)), r1, app)
       \<and> SimulateMsgBurnNFT env ak k r app ctx accs chainID =
           (Inr (NoOpMsg (ModuleName env), [],
             Some (fmt_Errorf ''account %s not found'' ownerAddr)), r1, app)"
  using assms by (simp add: op_defs case_prod_beta)

text \<open>The NFT of the ledger is owned by C, who is not one of the accounts A and B.\<close>

theorem unknown_owner_is_error_witness:
  "SimulateMsgTransferNFT sim_env sim_ak () [0, 0, 1, 5] app0 ledger2 [alice, bob] ''sim'' =
     (Inr (NoOpMsg ''nft'', [], Some (fmt_Errorf ''account %s not found'' ''C'')), [5], app0)
   \<and> SimulateMsgEditNFTMetadata sim_env sim_ak () [0, 0, 1, 5] app0 ledger2 [alice, bob] ''sim'' =
     (Inr (NoOpMsg ''nft'', [], Some (fmt_Errorf ''account %s not found'' ''C'')), [1, 5], app0)
   \<and> SimulateMsgBurnNFT sim_env sim_ak () [0, 0, 1, 5] app0 ledger2 [alice, bob] ''sim'' =
     (Inr (NoOpMsg ''nft'', [], Some (fmt_Errorf ''account %s not found'' ''C'')), [1, 5], app0)"
proof -
  have sample: "getRandomNFTFromOwner sim_env ledger2 () [0, 0, 1, 5] =
      ((''C'', ''collectible'', ''001''), [1, 5])"
    by (simp add: sim_defs)
  have owner: "\<not> Empty ''C''"
    by (simp add: Empty_def)
  have stranger: "FindAccount sim_env [alice, bob] ''C'' = (zeroAccount, False)"
    by (simp add: sim_env_def FindAccount_spec_def alice_def bob_def)
  have pick: "snd (RandomAcc sim_env [1, 5] [alice, bob]) = [5]"
    by (simp add: sim_env_def RandomAcc_spec_def)
  show ?thesis
    using unknown_owner_is_error [OF sample owner stranger, where ak = sim_ak and app = app0
        and chainID = "''sim''"] pick
    by (simp add: sim_env_def)
qed




text \<open>
  C8. Mint samples no NFT and picks its sender and its recipient uniformly and
  independently from the full list of accounts.
  First, for any collaborators: the sender and the recipient of a Mint request are the
  two accounts of \<open>Mint_picks\<close>, the results of two calls of \<^verbatim>\<open>RandomAcc\<close> on the whole
  list \<open>accs\<close>, the second in the state of the random source the first left; and it is
  the first pick whose account the keeper is asked for.
  Second, the run does not depend on the sampler or on the NFT keeper.
  Third, with the pick of the spec, a draw \<^verbatim>\<open>Intn\<close> over the whole list, and the
  \<open>n * n\<close> equally likely states of the random source for its next two draws, where \<open>n\<close>
  is the number of accounts: every pair of a sender and a recipient is picked in
  exactly one state, every sender in exactly \<open>n\<close> states and every recipient in exactly
  \<open>n\<close> states. So each account is the sender with probability \<open>n / (n * n) = 1 / n\<close>,
  each is the recipient with probability \<open>1 / n\<close>, and each pair is picked with
  probability \<open>1 / (n * n)\<close>, the product of the two: the picks are uniform and
  independent.
  Last, sender and recipient coincide in some run.
\<close>

theorem mint_picks_uniform_independent:
  "(\<forall>m \<in> set (requests app (SimulateMsgMintNFT env ak k r app ctx accs chainID)).
      \<exists>nftID denom tokenURI.
        m = NewMsgMintNFT (Address (fst (Mint_picks env r accs)))
              (Address (snd (Mint_picks env r accs))) nftID denom tokenURI)
   \<and> (fst (SimulateMsgMintNFT env ak k r app ctx accs chainID) = Inl nil_dereference) =
       (GetAccount ak ctx (Address (fst (Mint_picks env r accs))) = None)
   \<and> SimulateMsgMintNFT (env\<lparr>getRandomNFTFromOwner := g\<rparr>) ak k' r app ctx accs chainID =
       SimulateMsgMintNFT env ak k r app ctx accs chainID
   \<and> (distinct accs \<longrightarrow>
        card (next_two (length accs) r) = length accs * length accs
        \<and> (\<forall>i<length accs. \<forall>j<length accs.
             card {s \<in> next_two (length accs) r.
                     Mint_picks (env\<lparr>RandomAcc := RandomAcc_spec\<rparr>) s accs =
                       (accs ! i, accs ! j)} = 1
           \<and> card {s \<in> next_two (length accs) r.
                     fst (Mint_picks (env\<lparr>RandomAcc := RandomAcc_spec\<rparr>) s accs) =
                       accs ! i} = length accs
           \<and> card {s \<in> next_two (length accs) r.
                     snd (Mint_picks (env\<lparr>RandomAcc := RandomAcc_spec\<rparr>) s accs) =
                       accs ! j} = length accs))
   \<and> (\<exists>r nftID denom tokenURI.
        requests app0
          (SimulateMsgMintNFT sim_env sim_ak () r app0 ledger1 [alice, bob] ''sim'') =
        [NewMsgMintNFT ''A'' ''A'' nftID denom tokenURI])"
proof (intro conjI impI allI)
  show "\<forall>m \<in> set (requests app (SimulateMsgMintNFT env ak k r app ctx accs chainID)).
      \<exists>nftID denom tokenURI.
        m = NewMsgMintNFT (Address (fst (Mint_picks env r accs)))
              (Address (snd (Mint_picks env r accs))) nftID denom tokenURI"
    by (rule Mint_cases [where env = env and ak = ak and k = k and r = r
          and app = app and ctx = ctx and accs = accs and chainID = chainID])
      (simp_all add: Mint_picks_def)
  show "(fst (SimulateMsgMintNFT env ak k r app ctx accs chainID) = Inl nil_dereference) =
       (GetAccount ak ctx (Address (fst (Mint_picks env r accs))) = None)"
    by (rule Mint_cases [where env = env and ak = ak and k = k and r = r
          and app = app and ctx = ctx and accs = accs and chainID = chainID])
      (simp_all add: Mint_picks_def)
  show "SimulateMsgMintNFT (env\<lparr>getRandomNFTFromOwner := g\<rparr>) ak k' r app ctx accs chainID =
       SimulateMsgMintNFT env ak k r app ctx accs chainID"
    by (simp add: SimulateMsgMintNFT_def Deliver_def case_prod_beta Let_def
        split: option.split)
  show "card (next_two (length accs) r) = length accs * length accs"
    by (rule card_next_two)
  show "card {s \<in> next_two (length accs) r.
                Mint_picks (env\<lparr>RandomAcc := RandomAcc_spec\<rparr>) s accs =
                  (accs ! i, accs ! j)} = 1"
    if "distinct accs" "i < length accs" "j < length accs" for i j
    using that by (simp add: picks_pair_set)
  show "card {s \<in> next_two (length accs) r.
                fst (Mint_picks (env\<lparr>RandomAcc := RandomAcc_spec\<rparr>) s accs) =
                  accs ! i} = length accs"
    if "distinct accs" "i < length accs" for i
    using that by (simp add: picks_sender_set card_sender_image)
  show "card {s \<in> next_two (length accs) r.
                snd (Mint_picks (env\<lparr>RandomAcc := RandomAcc_spec\<rparr>) s accs) =
                  accs ! j} = length accs"
    if "distinct accs" "j < length accs" for j
    using that by (simp add: picks_recipient_set card_recipient_image)
  show "\<exists>r nftID denom tokenURI.
        requests app0
          (SimulateMsgMintNFT sim_env sim_ak () r app0 ledger1 [alice, bob] ''sim'') =
        [NewMsgMintNFT ''A'' ''A'' nftID denom tokenURI]"
    by (intro exI [of _ "[0, 0]"] exI [of _ "replicate 10 CHR ''a''"]
        exI [of _ "replicate 45 CHR ''a''"])
      (simp add: sim_mint_same_run GenTx_def)
qed

text \<open>
  With the two accounts A and B the random source is in one of four states for its
  next two draws. A is the sender and B the recipient in one of them, A is the sender
  in two and B is the recipient in two.
\<close>

theorem mint_picks_uniform_independent_witness:
  "card (next_two 2 []) = 4
   \<and> card {s \<in> next_two 2 []. Mint_picks sim_env s [alice, bob] = (alice, bob)} = 1
   \<and> card {s \<in> next_two 2 []. fst (Mint_picks sim_env s [alice, bob]) = alice} = 2
   \<and> card {s \<in> next_two 2 []. snd (Mint_picks sim_env s [alice, bob]) = bob} = 2"
proof -
  have same: "sim_env\<lparr>RandomAcc := RandomAcc_spec\<rparr> = sim_env"
    by (simp add: sim_env_def)
  have two: "distinct [alice, bob]"
    by (simp add: alice_def bob_def)
  from mint_picks_uniform_independent [where env = sim_env and accs = "[alice, bob]"
      and r = "[]"] two
  have counts: "card (next_two (length [alice, bob]) []) = length [alice, bob] * length [alice, bob]
    \<and> (\<forall>i<length [alice, bob]. \<forall>j<length [alice, bob].
         card {s \<in> next_two (length [alice, bob]) [].
                 Mint_picks sim_env s [alice, bob] = ([alice, bob] ! i, [alice, bob] ! j)} = 1
       \<and> card {s \<in> next_two (length [alice, bob]) [].
                 fst (Mint_picks sim_env s [alice, bob]) = [alice, bob] ! i} = length [alice, bob]
       \<and> card {s \<in> next_two (length [alice, bob]) [].
                 snd (Mint_picks sim_env s [alice, bob]) = [alice, bob] ! j} = length [alice, bob])"
    unfolding same by blast
  have len: "length [alice, bob] = 2"
    by simp
  from counts have total: "card (next_two 2 []) = 4"
    unfolding len by simp
  from counts have "\<forall>i<2. \<forall>j<2.
         card {s \<in> next_two 2 [].
                 Mint_picks sim_env s [alice, bob] = ([alice, bob] ! i, [alice, bob] ! j)} = 1
       \<and> card {s \<in> next_two 2 [].
                 fst (Mint_picks sim_env s [alice, bob]) = [alice, bob] ! i} = 2
       \<and> card {s \<in> next_two 2 [].
                 snd (Mint_picks sim_env s [alice, bob]) = [alice, bob] ! j} = 2"
    unfolding len by blast
  from this [rule_format, of 0 1] have
    "card {s \<in> next_two 2 []. Mint_picks sim_env s [alice, bob] = (alice, bob)} = 1
     \<and> card {s \<in> next_two 2 []. fst (Mint_picks sim_env s [alice, bob]) = alice} = 2
     \<and> card {s \<in> next_two 2 []. snd (Mint_picks sim_env s [alice, bob]) = bob} = 2"
    by simp
  with total show ?thesis
    by blast
qed

text \<open>
  C9. A run of Mint never ends in NoOp. When the account keeper holds an account for
  the sender, the run ends in one of two ways: when the fee resolver fails, the
  Outcome is the Failure with the resolver's error and nothing is submitted;
  otherwise one transaction is submitted, and the Outcome is the Success with its
  request when the engine flags the result ok, and the Failure with the engine's log
  text when it does not. When the keeper holds no account for the sender, the run
  panics before anything is submitted and has no Outcome.
\<close>

theorem mint_is_never_noop:
  "outcome (fst (SimulateMsgMintNFT env ak k r app ctx accs chainID)) \<noteq> Some NoOp
   \<and> (let ((sender, i), r1) = RandomAcc env r accs;
          ((recipient, j), r2) = RandomAcc env r1 accs;
          out = SimulateMsgMintNFT env ak k r app ctx accs chainID
      in case GetAccount ak ctx (Address sender) of
           None \<Rightarrow> fst out = Inl nil_dereference \<and> submitted app out = []
         | Some account \<Rightarrow>
             let ((fees, err), r3) =
                   RandomFees env r2 ctx (SpendableCoins account (BlockTime env ctx))
             in case err of
                  Some e \<Rightarrow> outcome (fst out) = Some (Failure e) \<and> submitted app out = []
                | None \<Rightarrow>
                    \<exists>tx. submitted app out = [tx] \<and>
                      (if IsOK (DeliverTx env app tx)
                       then \<exists>m. msgs tx = [m] \<and> outcome (fst out) = Some (Success m)
                       else outcome (fst out) =
                              Some (Failure (errors_New (Log (DeliverTx env app tx))))))"
proof (intro conjI)
  show "outcome (fst (SimulateMsgMintNFT env ak k r app ctx accs chainID)) \<noteq> Some NoOp"
    by (rule Mint_cases [where env = env and ak = ak and k = k and r = r
          and app = app and ctx = ctx and accs = accs and chainID = chainID]) simp_all
  show "let ((sender, i), r1) = RandomAcc env r accs;
          ((recipient, j), r2) = RandomAcc env r1 accs;
          out = SimulateMsgMintNFT env ak k r app ctx accs chainID
      in case GetAccount ak ctx (Address sender) of
           None \<Rightarrow> fst out = Inl nil_dereference \<and> submitted app out = []
         | Some account \<Rightarrow>
             let ((fees, err), r3) =
                   RandomFees env r2 ctx (SpendableCoins account (BlockTime env ctx))
             in case err of
                  Some e \<Rightarrow> outcome (fst out) = Some (Failure e) \<and> submitted app out = []
                | None \<Rightarrow>
                    \<exists>tx. submitted app out = [tx] \<and>
                      (if IsOK (DeliverTx env app tx)
                       then \<exists>m. msgs tx = [m] \<and> outcome (fst out) = Some (Success m)
                       else outcome (fst out) =
                              Some (Failure (errors_New (Log (DeliverTx env app tx)))))"
    by (rule Mint_cases [where env = env and ak = ak and k = k and r = r
          and app = app and ctx = ctx and accs = accs and chainID = chainID]) simp_all
qed

text \<open>
  The mint with the sender B, whose account the keeper holds and who has nothing to
  spend, is the Failure of the fee resolver.
\<close>

theorem mint_is_never_noop_witness:
  "outcome
     (fst (SimulateMsgMintNFT sim_env sim_ak () [1, 0, 5] app0 ledger1 [alice, bob] ''sim'')) =
     Some (Failure (errors_New ''insufficient funds''))
   \<and> submitted app0
       (SimulateMsgMintNFT sim_env sim_ak () [1, 0, 5] app0 ledger1 [alice, bob] ''sim'') = []"
proof -
  have pick1: "RandomAcc sim_env [1, 0, 5] [alice, bob] = ((bob, 1), [0, 5])"
    and pick2: "RandomAcc sim_env [0, 5] [alice, bob] = ((alice, 0), [5])"
    by (simp_all add: sim_env_def RandomAcc_spec_def)
  have held: "GetAccount sim_ak ledger1 (Address bob) =
      Some \<lparr>SpendableCoins = (\<lambda>t. []), GetAccountNumber = 0, GetSequence = 0\<rparr>"
    by (simp add: sim_defs)
  have poor: "RandomFees sim_env [5] ledger1 [] =
      (([], Some (errors_New ''insufficient funds'')), [5])"
    by (simp add: sim_defs)
  from mint_is_never_noop [where env = sim_env and ak = sim_ak and k = "()"
      and r = "[1, 0, 5]" and app = app0 and ctx = ledger1 and accs = "[alice, bob]"
      and chainID = "''sim''"]
  show ?thesis
    by (simp add: pick1 pick2 held poor Let_def del: One_nat_def)
qed

text \<open>
  With a keeper that holds no account the mint panics after the two picks: the run
  ends in neither a Success nor an error.
\<close>

theorem mint_ends_counterexample:
  "SimulateMsgMintNFT sim_env nil_ak () [0, 1, 5] app0 ledger1 [alice, bob] ''sim'' =
     (Inl nil_dereference, [5], app0)"
  by (simp add: SimulateMsgMintNFT_def sim_defs)




end
